theory Spec2Isabelle
  imports Complex_Main
begin

text \<open>
  A model of the permission filter and of the session handling of the MCP remote proxy
  (\<^verbatim>\<open>src/permissions.ts\<close>, \<^verbatim>\<open>src/auth.ts\<close>, \<^verbatim>\<open>src/mcp-remote.ts\<close>), and the
  properties of the specification that were checked against it.
\<close>

section \<open>Values of the message dialect\<close>

text \<open>
  The proxy inspects JSON-RPC traffic with the runtime's \<^verbatim>\<open>JSON.parse\<close>.  A parsed
  value is a JSON value: numbers are exact rationals (every finite double is one, and
  \<^verbatim>\<open>NaN\<close> and the infinities are not JSON), a text is a list of characters, and an
  object keeps its members in the order of the text.  The characters are those of
  \<^typ>\<open>char\<close>, the code points below 256; a chunk is modelled by its text.
\<close>

datatype json =
    JNull
  | JBool bool
  | JNumber rat
  | JString string
  | JArray "json list"
  | JObject "(string \<times> json) list"

text \<open>
  Truthiness of a value, as \<^verbatim>\<open>!v\<close> and \<^verbatim>\<open>v || w\<close> test it: \<^verbatim>\<open>null\<close>,
  \<^verbatim>\<open>false\<close>, \<^verbatim>\<open>0\<close> and the empty text are falsy, every array and object is truthy.
\<close>

fun truthy :: "json \<Rightarrow> bool" where
  "truthy JNull = False"
| "truthy (JBool b) = b"
| "truthy (JNumber n) = (n \<noteq> 0)"
| "truthy (JString s) = (s \<noteq> [])"
| "truthy (JArray vs) = True"
| "truthy (JObject kvs) = True"

datatype js_error = TypeError

text \<open>
  Reading the property \<open>k\<close> of a parsed value, for the names the code reads
  (\<^verbatim>\<open>jsonrpc\<close>, \<^verbatim>\<open>method\<close>, \<^verbatim>\<open>id\<close>): on \<^verbatim>\<open>null\<close> the access throws, on an
  object it gives the member of that name (the last one, when the text repeated the
  name), and on every other value it gives \<^verbatim>\<open>undefined\<close>, which is \<open>None\<close>.
\<close>

fun property :: "json \<Rightarrow> string \<Rightarrow> js_error + json option" where
  "property JNull k = Inl TypeError"
| "property (JObject kvs) k = Inr (map_of (rev kvs) k)"
| "property (JBool b) k = Inr None"
| "property (JNumber n) k = Inr None"
| "property (JString s) k = Inr None"
| "property (JArray vs) k = Inr None"

text \<open>\<^verbatim>\<open>data.split(sep)\<close> for a separator of one character.\<close>

fun split :: "char \<Rightarrow> string \<Rightarrow> string list" where
  "split sep [] = [[]]"
| "split sep (c # cs) =
     (if c = sep then [] # split sep cs
      else (case split sep cs of
              [] \<Rightarrow> [[c]]
            | piece # pieces \<Rightarrow> (c # piece) # pieces))"

text \<open>
  \<^verbatim>\<open>line.trim()\<close>: white space and line terminators are removed at both ends.  Of
  the characters a \<^typ>\<open>char\<close> can hold these are tab, line feed, vertical tab, form feed,
  carriage return, space and the no-break space.
\<close>

definition is_space :: "char \<Rightarrow> bool" where
  "is_space c = (c \<in> set [CHR 0x09, CHR 0x0A, CHR 0x0B, CHR 0x0C, CHR 0x0D, CHR 0x20, CHR 0xA0])"

definition trim :: "string \<Rightarrow> string" where
  "trim s = rev (dropWhile is_space (rev (dropWhile is_space s)))"

section \<open>What the code takes from its runtime\<close>

text \<open>
  The payload of a verified token, with the two claims the server reads
  (\<^verbatim>\<open>JWTPayload\<close>; \<^verbatim>\<open>iat\<close>, \<^verbatim>\<open>exp\<close> and custom claims are not read by the server).
\<close>

record JWTPayload =
  user :: "string option"
  roles :: "string list option"

text \<open>
  The functions that the code calls and the repository does not define are parameters of
  the model: \<^verbatim>\<open>JSON.parse\<close> (\<open>None\<close> when it throws a syntax error),
  \<^verbatim>\<open>JSON.stringify\<close>, the conversion to text of a value that is not a text (an
  error when it throws, as it does for an object whose \<^verbatim>\<open>toString\<close> cannot be called),
  \<^verbatim>\<open>jwt.verify\<close> of the jsonwebtoken package (\<open>None\<close> when it throws) and
  \<^verbatim>\<open>fs.readFileSync\<close> (\<open>None\<close> when it throws).
\<close>

record runtime =
  JSON_parse :: "string \<Rightarrow> json option"
  JSON_stringify :: "json \<Rightarrow> string"
  ToString :: "json \<Rightarrow> js_error + string"
  jwt_verify :: "string \<Rightarrow> string \<Rightarrow> JWTPayload option"
  readFileSync :: "string \<Rightarrow> string option"

section \<open>Permission model (permissions.ts)\<close>

text \<open>
  \<^verbatim>\<open>RolePermissions\<close> and \<^verbatim>\<open>PermissionsConfig\<close>.  The optional fields
  \<^verbatim>\<open>allowedParams\<close> and \<^verbatim>\<open>blockedParams\<close> are declared and never read; they are
  left out.  \<^verbatim>\<open>permissions\<close> is a dictionary from role names to role permissions:
  a map over the keys the object holds, where \<open>None\<close> is the \<^verbatim>\<open>undefined\<close> that the
  lookup of a name gives that is neither a key nor inherited.  The model takes the
  configuration to have its declared type.
\<close>

record RolePermissions =
  allowedMethods :: "string list"
  blockedMethods :: "string list"

record PermissionsConfig =
  permissions :: "string \<rightharpoonup> RolePermissions"

text \<open>
  \<^verbatim>\<open>loadPermissionsConfig\<close>: the value parsed from the file, or \<^verbatim>\<open>null\<close> when
  reading or parsing throws.
\<close>

definition loadPermissionsConfig :: "runtime \<Rightarrow> string \<Rightarrow> json" where
  "loadPermissionsConfig rt configPath =
     (case readFileSync rt configPath of
        None \<Rightarrow> JNull
      | Some configData \<Rightarrow>
          (case JSON_parse rt configData of
             None \<Rightarrow> JNull
           | Some config \<Rightarrow> config))"

subsection \<open>Reading a message out of a chunk\<close>

text \<open>
  The loop of \<^verbatim>\<open>parseMCPMessage\<close> over the lines.  A line that \<^verbatim>\<open>JSON.parse\<close>
  rejects, or whose value is \<^verbatim>\<open>null\<close> (reading \<^verbatim>\<open>jsonrpc\<close> throws), lands in the
  inner \<^verbatim>\<open>catch\<close> and the loop continues; so it does when \<^verbatim>\<open>jsonrpc\<close> is not the
  text 2.0.
\<close>

fun parseMCPMessage_lines :: "(string \<Rightarrow> json option) \<Rightarrow> string list \<Rightarrow> json option" where
  "parseMCPMessage_lines parse [] = None"
| "parseMCPMessage_lines parse (line # lines) =
     (case parse line of
        None \<Rightarrow> parseMCPMessage_lines parse lines
      | Some message \<Rightarrow>
          (case property message ''jsonrpc'' of
             Inl err \<Rightarrow> parseMCPMessage_lines parse lines
           | Inr jsonrpc \<Rightarrow>
               if jsonrpc = Some (JString ''2.0'') then Some message
               else parseMCPMessage_lines parse lines))"

text \<open>
  \<^verbatim>\<open>parseMCPMessage\<close>: the lines of the chunk whose trimmed text is not empty, scanned
  in order.  Nothing outside the loop throws, so the outer \<^verbatim>\<open>catch\<close> has no branch.
\<close>

definition parseMCPMessage :: "runtime \<Rightarrow> string \<Rightarrow> json option" where
  "parseMCPMessage rt data =
     parseMCPMessage_lines (JSON_parse rt)
       (filter (\<lambda>line. trim line \<noteq> []) (split CHR 0x0A data))"

subsection \<open>The decision\<close>

text \<open>
  \<^verbatim>\<open>xs.includes(v)\<close> on an array of texts.  The method handed to
  \<^verbatim>\<open>isMethodAllowed\<close> is declared a text, and it is whatever \<^verbatim>\<open>JSON.parse\<close> found
  under \<^verbatim>\<open>method\<close> (the cast to \<^verbatim>\<open>MCPMessage\<close> checks nothing), so it is a value
  here; a value that is not a text equals no element.
\<close>

definition array_includes :: "string list \<Rightarrow> json \<Rightarrow> bool" where
  "array_includes xs v = (v \<in> set (map JString xs))"

text \<open>
  The members every object inherits from \<^verbatim>\<open>Object.prototype\<close>.  The configuration
  is a plain object, so \<^verbatim>\<open>permissions[role]\<close> finds them under these names when the
  object has no key of that name.
\<close>

definition inherited :: "string list" where
  "inherited =
     [''constructor'', ''__defineGetter__'', ''__defineSetter__'', ''hasOwnProperty'',
      ''__lookupGetter__'', ''__lookupSetter__'', ''isPrototypeOf'', ''propertyIsEnumerable'',
      ''toString'', ''valueOf'', ''__proto__'', ''toLocaleString'']"

text \<open>
  The \<^verbatim>\<open>for\<close> loop of \<^verbatim>\<open>isMethodAllowed\<close>, with its three exits.  A role name
  that is not a key and is inherited gives a member that is truthy, so the role is not
  skipped; the member has no \<^verbatim>\<open>blockedMethods\<close>, and calling \<^verbatim>\<open>includes\<close> on
  \<^verbatim>\<open>undefined\<close> throws.
\<close>

fun isMethodAllowed_loop :: "json \<Rightarrow> string list \<Rightarrow> PermissionsConfig \<Rightarrow> js_error + bool" where
  "isMethodAllowed_loop method [] permissionsConfig = Inr False"
| "isMethodAllowed_loop method (role # others) permissionsConfig =
     (case permissions permissionsConfig role of
        None \<Rightarrow>
          if role \<in> set inherited then Inl TypeError
          else isMethodAllowed_loop method others permissionsConfig
      | Some rolePerms \<Rightarrow>
          if array_includes (blockedMethods rolePerms) method
             \<or> array_includes (blockedMethods rolePerms) (JString ''*'')
          then Inr False
          else if array_includes (allowedMethods rolePerms) method
             \<or> array_includes (allowedMethods rolePerms) (JString ''*'')
          then Inr True
          else isMethodAllowed_loop method others permissionsConfig)"

definition isMethodAllowed :: "json \<Rightarrow> string list \<Rightarrow> PermissionsConfig \<Rightarrow> js_error + bool" where
  "isMethodAllowed method userRoles permissionsConfig =
     (if userRoles = [] then Inr False
      else isMethodAllowed_loop method userRoles permissionsConfig)"

subsection \<open>The error response and the filter\<close>

text \<open>\<^verbatim>\<open>id || null\<close>: the id when there is one and it is truthy, \<^verbatim>\<open>null\<close> otherwise.\<close>

fun or_null :: "json option \<Rightarrow> json" where
  "or_null None = JNull"
| "or_null (Some v) = (if truthy v then v else JNull)"

text \<open>The object \<^verbatim>\<open>errorResponse\<close> that \<^verbatim>\<open>createErrorResponse\<close> builds.\<close>

definition errorResponse :: "json option \<Rightarrow> string \<Rightarrow> json" where
  "errorResponse msgId message =
     JObject
       [(''jsonrpc'', JString ''2.0''),
        (''id'', or_null msgId),
        (''error'',
           JObject
             [(''code'', JNumber (- 32601)),
              (''message'', JString (''Method not allowed: '' @ message))])]"

definition createErrorResponse :: "runtime \<Rightarrow> json option \<Rightarrow> string \<Rightarrow> string" where
  "createErrorResponse rt msgId message =
     JSON_stringify rt (errorResponse msgId message) @ [CHR 0x0A]"

text \<open>
  The result of the filter.  A field the object literal leaves out is \<open>None\<close>.  The
  chunk is the buffer the socket delivered; its text is what \<^verbatim>\<open>parseMCPMessage\<close>
  reads, and \<^verbatim>\<open>filteredData\<close> is the buffer itself.
\<close>

record filter_result =
  allowed :: bool
  response :: "string option"
  filteredData :: "string option"

definition pass :: "string \<Rightarrow> filter_result" where
  "pass data = \<lparr>allowed = True, response = None, filteredData = Some data\<rparr>"

text \<open>
  A value inside a template literal: a text stands for itself, any other value is
  converted by the runtime, which may throw.
\<close>

definition interpolate :: "runtime \<Rightarrow> json \<Rightarrow> js_error + string" where
  "interpolate rt v = (case v of JString text \<Rightarrow> Inr text | _ \<Rightarrow> ToString rt v)"

text \<open>
  \<^verbatim>\<open>createMessageFilter\<close>, applied to the roles, the configuration and a chunk.  The
  message that \<^verbatim>\<open>parseMCPMessage\<close> returns is an object, so reading its properties
  does not throw.  The filter has no \<^verbatim>\<open>try\<close> block of its own: what
  \<^verbatim>\<open>isMethodAllowed\<close> or the template literal throws, the filter throws.
\<close>

definition createMessageFilter ::
  "runtime \<Rightarrow> string list \<Rightarrow> PermissionsConfig option \<Rightarrow> string \<Rightarrow> js_error + filter_result" where
  "createMessageFilter rt userRoles permissionsConfig data =
     (case permissionsConfig of
        None \<Rightarrow> Inr (pass data)
      | Some config \<Rightarrow>
          (case parseMCPMessage rt data of
             None \<Rightarrow> Inr (pass data)
           | Some message \<Rightarrow>
               (case property message ''method'' of
                  Inl err \<Rightarrow> Inr (pass data)
                | Inr None \<Rightarrow> Inr (pass data)
                | Inr (Some method) \<Rightarrow>
                    if \<not> truthy method then Inr (pass data)
                    else
                      (case isMethodAllowed method userRoles config of
                         Inl err \<Rightarrow> Inl err
                       | Inr True \<Rightarrow> Inr (pass data)
                       | Inr False \<Rightarrow>
                           (case interpolate rt method of
                              Inl err \<Rightarrow> Inl err
                            | Inr name \<Rightarrow>
                                Inr \<lparr>allowed = False,
                                     response = Some (createErrorResponse rt
                                       (case property message ''id'' of
                                          Inl err \<Rightarrow> None
                                        | Inr msgId \<Rightarrow> msgId)
                                       (''Access denied for method '' @ [CHR 0x27] @ name @ [CHR 0x27])),
                                     filteredData = None\<rparr>)))))"

section \<open>Credentials (auth.ts)\<close>

text \<open>\<^verbatim>\<open>verifyJWTWithPayload\<close>: the pair of \<^verbatim>\<open>valid\<close> and \<^verbatim>\<open>payload\<close>.\<close>

definition verifyJWTWithPayload :: "runtime \<Rightarrow> string \<Rightarrow> string \<Rightarrow> bool \<times> JWTPayload option" where
  "verifyJWTWithPayload rt token secret =
     (case jwt_verify rt token secret of
        None \<Rightarrow> (False, None)
      | Some decoded \<Rightarrow> (True, Some decoded))"

text \<open>
  \<^verbatim>\<open>hasRequiredRoles\<close>; the user's roles may be \<^verbatim>\<open>undefined\<close>.
  \<^verbatim>\<open>requiredRoles.some(role => userRoles.includes(role))\<close> is \<open>list_ex\<close>.
\<close>

definition hasRequiredRoles :: "string list option \<Rightarrow> string list \<Rightarrow> bool" where
  "hasRequiredRoles userRoles requiredRoles =
     (if requiredRoles = [] then True
      else (case userRoles of
              None \<Rightarrow> False
            | Some held \<Rightarrow>
                if held = [] then False
                else list_ex (\<lambda>role. role \<in> set held) requiredRoles))"

section \<open>The server (mcp-remote.ts)\<close>

datatype protocol = Tcp | Ws

text \<open>
  The options \<^verbatim>\<open>startServer\<close> reads.  \<open>permissionsConfigPath\<close> is the option
  \<^verbatim>\<open>permissionsConfig\<close>, the path of the permissions file.  An option that was not
  given is \<open>None\<close>; a text option counts as given when it is not empty, an array option
  when it is there.
\<close>

record Options =
  protocol :: protocol
  jwtSecret :: "string option"
  requiredRoles :: "string list option"
  permissionsConfigPath :: "string option"

fun given :: "string option \<Rightarrow> bool" where
  "given None = False"
| "given (Some text) = (text \<noteq> [])"

subsection \<open>Start-up\<close>

text \<open>
  The first step of \<^verbatim>\<open>startServer\<close>: either the process exits with a status, or the
  server goes on with the value of its variable \<^verbatim>\<open>permissionsConfig\<close>, which is
  \<^verbatim>\<open>null\<close> when no file was asked for.
\<close>

datatype startup = Exited int | Serving json

definition startServer_permissions :: "runtime \<Rightarrow> Options \<Rightarrow> startup" where
  "startServer_permissions rt options =
     (case permissionsConfigPath options of
        None \<Rightarrow> Serving JNull
      | Some path \<Rightarrow>
          if path = [] then Serving JNull
          else
            (let permissionsConfig = loadPermissionsConfig rt path in
             if \<not> truthy permissionsConfig then Exited 1
             else Serving permissionsConfig))"

subsection \<open>Sessions\<close>

text \<open>
  One accepted connection.  Its phase says which handler the next chunk meets: the one
  that takes it as the token, the filter of an authenticated session with its roles
  (the closure \<^verbatim>\<open>messageFilter\<close>), or the plain forwarding of a server without a
  secret.  A socket that was ended, closed or destroyed is \<open>Closed\<close> and receives
  nothing further; \<open>Crashed\<close> records an exception that no handler catches, which ends
  the process.  The timers are the milliseconds left until they fire: \<open>authTimeout\<close> is
  the timer of that name, \<open>idleTimeout\<close> the one \<^verbatim>\<open>socket.setTimeout\<close> arms.
  \<open>toClient\<close> and \<open>toStdin\<close> collect what was written to the socket and to the
  standard input of the subprocess.
\<close>

datatype phase = AwaitingToken | Authenticated "string list" | PassThrough | Closed | Crashed

record session =
  phase :: phase
  authTimeout :: "nat option"
  idleTimeout :: "nat option"
  toClient :: "string list"
  toStdin :: "string list"

text \<open>
  What the handlers ask of the world when an event arrives: whether the standard input of
  the subprocess is there and not destroyed, and whether the write the event leads to
  throws.
\<close>

record environment =
  stdinUsable :: bool
  writeThrows :: bool

datatype event =
    Data environment string
  | Stdout environment string
  | Elapse environment nat
  | Disconnect

text \<open>The objects the server sends during authentication.\<close>

definition insufficientRoles :: "string list \<Rightarrow> string list option \<Rightarrow> json" where
  "insufficientRoles required provided =
     JObject
       [(''jsonrpc'', JString ''2.0''),
        (''error'',
           JObject
             [(''code'', JNumber (- 32001)),
              (''message'', JString ''Insufficient roles''),
              (''data'',
                 JObject
                   [(''required'', JArray (map JString required)),
                    (''provided'',
                       JArray (map JString (case provided of None \<Rightarrow> [] | Some held \<Rightarrow> held)))])])]"

definition authenticationSucceeded :: "JWTPayload \<Rightarrow> json" where
  "authenticationSucceeded payload =
     JObject
       [(''jsonrpc'', JString ''2.0''),
        (''result'',
           JObject
             ([(''authenticated'', JBool True)]
              @ (case user payload of None \<Rightarrow> [] | Some name \<Rightarrow> [(''user'', JString name)])
              @ [(''roles'',
                   JArray (map JString (case roles payload of None \<Rightarrow> [] | Some held \<Rightarrow> held)))]))]"

definition authenticationFailed :: json where
  "authenticationFailed =
     JObject
       [(''jsonrpc'', JString ''2.0''),
        (''error'',
           JObject
             [(''code'', JNumber (- 32002)),
              (''message'', JString ''Authentication failed''),
              (''data'', JObject [(''reason'', JString ''Invalid token'')])])]"

definition authenticationTimeout :: json where
  "authenticationTimeout =
     JObject
       [(''jsonrpc'', JString ''2.0''),
        (''error'',
           JObject
             [(''code'', JNumber (- 32003)),
              (''message'', JString ''Authentication timeout''),
              (''data'', JObject [(''timeout'', JString ''10 seconds'')])])]"

text \<open>
  The connection handlers of the two listeners, up to the point where they wait for data.
  Only the TCP listener arms the idle timeout (five minutes); only the WebSocket listener
  arms the authentication timeout (ten seconds), and only when there is a secret.
\<close>

definition accept :: "Options \<Rightarrow> session" where
  "accept options =
     (case protocol options of
        Tcp \<Rightarrow>
          \<lparr>phase = (if given (jwtSecret options) then AwaitingToken else PassThrough),
           authTimeout = None, idleTimeout = Some 300000, toClient = [], toStdin = []\<rparr>
      | Ws \<Rightarrow>
          \<lparr>phase = (if given (jwtSecret options) then AwaitingToken else PassThrough),
           authTimeout = (if given (jwtSecret options) then Some 10000 else None),
           idleTimeout = None, toClient = [], toStdin = []\<rparr>)"

text \<open>A write to the socket outside every \<^verbatim>\<open>try\<close> block.\<close>

definition send :: "environment \<Rightarrow> string \<Rightarrow> session \<Rightarrow> session" where
  "send env text s =
     (if writeThrows env then s\<lparr>phase := Crashed\<rparr>
      else s\<lparr>toClient := toClient s @ [text]\<rparr>)"

text \<open>What follows a write in the same handler, unless the write threw.\<close>

definition and_then :: "phase \<Rightarrow> session \<Rightarrow> session" where
  "and_then p s = (if phase s = Crashed then s else s\<lparr>phase := p\<rparr>)"

text \<open>
  The first chunk of a connection to a server with a secret: the token.  The TCP listener
  ends each of its answers with a line feed, the WebSocket listener does not, and the
  WebSocket listener clears the authentication timeout first.
\<close>

definition token_received ::
  "runtime \<Rightarrow> Options \<Rightarrow> environment \<Rightarrow> string \<Rightarrow> session \<Rightarrow> session" where
  "token_received rt options env data s0 =
     (let s = (case protocol options of Tcp \<Rightarrow> s0 | Ws \<Rightarrow> s0\<lparr>authTimeout := None\<rparr>);
          eol = (case protocol options of Tcp \<Rightarrow> [CHR 0x0A] | Ws \<Rightarrow> []);
          token = trim data
      in case verifyJWTWithPayload rt token (case jwtSecret options of None \<Rightarrow> [] | Some secret \<Rightarrow> secret) of
           (True, Some payload) \<Rightarrow>
             (case requiredRoles options of
                None \<Rightarrow>
                  and_then (Authenticated (case roles payload of None \<Rightarrow> [] | Some held \<Rightarrow> held))
                    (send env (JSON_stringify rt (authenticationSucceeded payload) @ eol) s)
              | Some required \<Rightarrow>
                  if \<not> hasRequiredRoles (roles payload) required
                  then and_then Closed
                    (send env (JSON_stringify rt (insufficientRoles required (roles payload)) @ eol) s)
                  else
                    and_then (Authenticated (case roles payload of None \<Rightarrow> [] | Some held \<Rightarrow> held))
                      (send env (JSON_stringify rt (authenticationSucceeded payload) @ eol) s))
         | _ \<Rightarrow> and_then Closed (send env (JSON_stringify rt authenticationFailed @ eol) s))"

text \<open>Writing a chunk to the subprocess; a write that throws is caught and logged.\<close>

definition to_subprocess :: "environment \<Rightarrow> string \<Rightarrow> session \<Rightarrow> session" where
  "to_subprocess env data s =
     (if stdinUsable env \<and> \<not> writeThrows env then s\<lparr>toStdin := toStdin s @ [data]\<rparr> else s)"

text \<open>
  A chunk that arrives in an authenticated session: the handler that wraps
  \<^verbatim>\<open>messageFilter\<close>.  The TCP handler calls the filter outside every \<^verbatim>\<open>try\<close>
  block, so what the filter throws nobody catches; the WebSocket handler calls it inside
  one and logs the error.  When the write of the response throws, the TCP handler
  destroys the socket and the WebSocket handler logs the error.
\<close>

definition filtered ::
  "runtime \<Rightarrow> protocol \<Rightarrow> PermissionsConfig option \<Rightarrow> environment \<Rightarrow> string list
     \<Rightarrow> string \<Rightarrow> session \<Rightarrow> session" where
  "filtered rt proto permissionsConfig env userRoles data s =
     (case createMessageFilter rt userRoles permissionsConfig data of
        Inl err \<Rightarrow> (case proto of Tcp \<Rightarrow> s\<lparr>phase := Crashed\<rparr> | Ws \<Rightarrow> s)
      | Inr result \<Rightarrow>
          (case (allowed result, filteredData result) of
             (True, Some forwarded) \<Rightarrow> to_subprocess env forwarded s
           | _ \<Rightarrow>
               (case response result of
                  None \<Rightarrow> s
                | Some answer \<Rightarrow>
                    if answer = [] then s
                    else if writeThrows env
                    then (case proto of Tcp \<Rightarrow> s\<lparr>phase := Closed\<rparr> | Ws \<Rightarrow> s)
                    else s\<lparr>toClient := toClient s @ [answer]\<rparr>)))"

text \<open>
  Output of the subprocess, for a session whose listener is registered.  The TCP handler
  destroys the socket when the write throws; the WebSocket listener has no \<^verbatim>\<open>try\<close>.
\<close>

definition stdout_data :: "protocol \<Rightarrow> environment \<Rightarrow> string \<Rightarrow> session \<Rightarrow> session" where
  "stdout_data proto env data s =
     (case proto of
        Tcp \<Rightarrow> if writeThrows env then s\<lparr>phase := Closed\<rparr> else s\<lparr>toClient := toClient s @ [data]\<rparr>
      | Ws \<Rightarrow> send env data s)"

text \<open>
  Time that passes without traffic on the connection.  The authentication timeout sends
  its error (outside every \<^verbatim>\<open>try\<close> block) and closes the socket; the idle timeout
  destroys the socket and sends nothing.
\<close>

definition elapse :: "runtime \<Rightarrow> environment \<Rightarrow> nat \<Rightarrow> session \<Rightarrow> session" where
  "elapse rt env ms s =
     (case authTimeout s of
        Some left \<Rightarrow>
          if left \<le> ms
          then and_then Closed
                 (send env (JSON_stringify rt authenticationTimeout) (s\<lparr>authTimeout := None\<rparr>))
          else s\<lparr>authTimeout := Some (left - ms)\<rparr>
      | None \<Rightarrow>
          (case idleTimeout s of
             Some left \<Rightarrow>
               if left \<le> ms then s\<lparr>phase := Closed, idleTimeout := None\<rparr>
               else s\<lparr>idleTimeout := Some (left - ms)\<rparr>
           | None \<Rightarrow> s))"

text \<open>Traffic on a TCP socket starts its idle timeout afresh.\<close>

definition activity :: "session \<Rightarrow> session" where
  "activity s =
     (case idleTimeout s of
        None \<Rightarrow> s
      | Some left \<Rightarrow> if phase s = Closed \<or> phase s = Crashed then s else s\<lparr>idleTimeout := Some 300000\<rparr>)"

text \<open>One event of a session, and a sequence of them.\<close>

fun step ::
  "runtime \<Rightarrow> Options \<Rightarrow> PermissionsConfig option \<Rightarrow> session \<Rightarrow> event \<Rightarrow> session" where
  "step rt options permissionsConfig s (Data env data) =
     (case phase s of
        AwaitingToken \<Rightarrow> activity (token_received rt options env data s)
      | Authenticated userRoles \<Rightarrow>
          activity (filtered rt (protocol options) permissionsConfig env userRoles data s)
      | PassThrough \<Rightarrow> activity (to_subprocess env data s)
      | Closed \<Rightarrow> s
      | Crashed \<Rightarrow> s)"
| "step rt options permissionsConfig s (Stdout env data) =
     (case phase s of
        AwaitingToken \<Rightarrow> s
      | Authenticated userRoles \<Rightarrow> activity (stdout_data (protocol options) env data s)
      | PassThrough \<Rightarrow> activity (stdout_data (protocol options) env data s)
      | Closed \<Rightarrow> s
      | Crashed \<Rightarrow> s)"
| "step rt options permissionsConfig s (Elapse env ms) =
     (case phase s of
        Closed \<Rightarrow> s
      | Crashed \<Rightarrow> s
      | _ \<Rightarrow> elapse rt env ms s)"
| "step rt options permissionsConfig s Disconnect =
     (case phase s of
        Crashed \<Rightarrow> s
      | _ \<Rightarrow> s\<lparr>phase := Closed, authTimeout := None, idleTimeout := None\<rparr>)"

definition run ::
  "runtime \<Rightarrow> Options \<Rightarrow> PermissionsConfig option \<Rightarrow> session \<Rightarrow> event list \<Rightarrow> session" where
  "run rt options permissionsConfig s events = foldl (step rt options permissionsConfig) s events"

section \<open>The words of the specification\<close>

subsection \<open>The reference algorithm of the permission decision\<close>

text \<open>
  The specification describes the decision as a scan in which every role casts a vote:
  a role the configuration does not know abstains; a role that lists the method, or the
  wildcard, among its blocked methods denies; otherwise a role that lists the method, or
  the wildcard, among its allowed methods grants; otherwise it abstains.  The first vote
  that is not an abstention decides, and the answer is no when nobody decides or when
  there is no role at all.
\<close>

datatype vote = Deny | Grant | Abstain

definition mentions :: "string list \<Rightarrow> string \<Rightarrow> bool" where
  "mentions ms m = (m \<in> set ms \<or> ''*'' \<in> set ms)"

definition role_vote :: "PermissionsConfig \<Rightarrow> string \<Rightarrow> string \<Rightarrow> vote" where
  "role_vote c m r =
     (case permissions c r of
        None \<Rightarrow> Abstain
      | Some p \<Rightarrow>
          if mentions (blockedMethods p) m then Deny
          else if mentions (allowedMethods p) m then Grant
          else Abstain)"

fun first_vote :: "vote list \<Rightarrow> bool" where
  "first_vote [] = False"
| "first_vote (Deny # vs) = False"
| "first_vote (Grant # vs) = True"
| "first_vote (Abstain # vs) = first_vote vs"

definition isMethodAllowed_reference :: "string \<Rightarrow> string list \<Rightarrow> PermissionsConfig \<Rightarrow> bool" where
  "isMethodAllowed_reference m rs c =
     (if rs = [] then False else first_vote (map (role_vote c m) rs))"

text \<open>
  The role lists on which the lookup of the code and the lookup of the specification
  agree: every role is a key of the configuration or is not an inherited name.
\<close>

definition plain_roles :: "PermissionsConfig \<Rightarrow> string list \<Rightarrow> bool" where
  "plain_roles c rs = list_all (\<lambda>r. r \<in> dom (permissions c) \<or> r \<notin> set inherited) rs"

subsection \<open>The first message of a chunk\<close>

text \<open>
  The specification speaks of the first line of a chunk that parses as JSON with the
  protocol version 2.0.  The lines are the pieces between line feeds that are not blank.
\<close>

definition chunk_lines :: "string \<Rightarrow> string list" where
  "chunk_lines data = filter (\<lambda>line. trim line \<noteq> []) (split CHR 0x0A data)"

definition is_message_line :: "runtime \<Rightarrow> string \<Rightarrow> bool" where
  "is_message_line rt line =
     (case JSON_parse rt line of
        Some (JObject kvs) \<Rightarrow> map_of (rev kvs) ''jsonrpc'' = Some (JString ''2.0'')
      | _ \<Rightarrow> False)"

definition first_message :: "runtime \<Rightarrow> string \<Rightarrow> json option" where
  "first_message rt data =
     (case find (is_message_line rt) (chunk_lines data) of
        None \<Rightarrow> None
      | Some line \<Rightarrow> JSON_parse rt line)"

subsection \<open>The scenario of the specification\<close>

text \<open>The configuration of the specification's scenarios (its section 8).\<close>

definition scenario_config :: PermissionsConfig where
  "scenario_config =
     \<lparr>permissions =
        [''admin'' \<mapsto> \<lparr>allowedMethods = [''*''], blockedMethods = []\<rparr>,
         ''user'' \<mapsto> \<lparr>allowedMethods = [''tools/list''], blockedMethods = [''tools/call'']\<rparr>]\<rparr>"

section \<open>A model of the runtime's JSON functions\<close>

text \<open>
  The general results below hold for every runtime.  The examples need one that
  computes: the functions of this section follow the JSON grammar (ECMA-404) and the
  serialisation of ECMAScript, for texts of 8-bit characters and with exact decimal
  arithmetic in place of doubles.  An escape \<^verbatim>\<open>\uXXXX\<close> beyond the 8-bit range is
  not read, and the members of an object are written in the order of the list.
\<close>

text \<open>
  Digits and hexadecimal digits, by their character codes.
\<close>

definition is_digit :: "char \<Rightarrow> bool" where
  "is_digit c = (48 \<le> (of_char c :: int) \<and> (of_char c :: int) \<le> 57)"

definition digit_value :: "char \<Rightarrow> int" where
  "digit_value c = of_char c - 48"

definition int_of_digits :: "string \<Rightarrow> int" where
  "int_of_digits ds = foldl (\<lambda>n c. 10 * n + digit_value c) 0 ds"

definition hex_value :: "char \<Rightarrow> int option" where
  "hex_value c =
     (let n = (of_char c :: int) in
      if 48 \<le> n \<and> n \<le> 57 then Some (n - 48)
      else if 97 \<le> n \<and> n \<le> 102 then Some (n - 87)
      else if 65 \<le> n \<and> n \<le> 70 then Some (n - 55)
      else None)"

text \<open>
  The white space of JSON texts: space, tab, line feed and carriage return.
\<close>

definition is_json_space :: "char \<Rightarrow> bool" where
  "is_json_space c = (c \<in> set [CHR 0x20, CHR 0x09, CHR 0x0A, CHR 0x0D])"

definition json_ws :: "string \<Rightarrow> string" where
  "json_ws s = dropWhile is_json_space s"

text \<open>
  The character that follows a backslash in a string, other than \<^verbatim>\<open>u\<close>.
\<close>

definition unescape :: "char \<Rightarrow> char option" where
  "unescape e =
     (if e = CHR 0x22 then Some (CHR 0x22)
      else if e = CHR 0x5C then Some (CHR 0x5C)
      else if e = CHR ''/'' then Some (CHR ''/'')
      else if e = CHR ''b'' then Some (CHR 0x08)
      else if e = CHR ''f'' then Some (CHR 0x0C)
      else if e = CHR ''n'' then Some (CHR 0x0A)
      else if e = CHR ''r'' then Some (CHR 0x0D)
      else if e = CHR ''t'' then Some (CHR 0x09)
      else None)"

definition hex4 :: "string \<Rightarrow> int option" where
  "hex4 hs =
     (case map hex_value hs of
        [Some a, Some b, Some c, Some d] \<Rightarrow> Some (((a * 16 + b) * 16 + c) * 16 + d)
      | _ \<Rightarrow> None)"

text \<open>
  The characters of a string up to its closing quote, with what follows the quote.  A
  control character must be escaped.  The first argument bounds the number of steps; the
  length of the text is enough.
\<close>

fun parse_chars :: "nat \<Rightarrow> string \<Rightarrow> (string \<times> string) option" where
  "parse_chars 0 s = None"
| "parse_chars (Suc n) [] = None"
| "parse_chars (Suc n) (c # cs) =
     (if c = CHR 0x22 then Some ([], cs)
      else if c = CHR 0x5C then
        (case cs of
           [] \<Rightarrow> None
         | e # es \<Rightarrow>
             if e = CHR ''u'' then
               (case hex4 (take 4 es) of
                  None \<Rightarrow> None
                | Some code \<Rightarrow>
                    if code < 256
                    then map_option (apfst ((#) (char_of code))) (parse_chars n (drop 4 es))
                    else None)
             else
               (case unescape e of
                  None \<Rightarrow> None
                | Some ch \<Rightarrow> map_option (apfst ((#) ch)) (parse_chars n es)))
      else if (of_char c :: int) < 32 then None
      else map_option (apfst ((#) c)) (parse_chars n cs))"

text \<open>
  A number: an optional minus sign, an integer part without a leading zero, an optional
  fraction and an optional exponent.  Its value is exact.
\<close>

definition parse_number :: "string \<Rightarrow> (rat \<times> string) option" where
  "parse_number s =
     (let negative = (take 1 s = ''-'');
          s1 = (if negative then drop 1 s else s);
          intPart = takeWhile is_digit s1;
          s2 = dropWhile is_digit s1;
          hasFraction = (take 1 s2 = ''.'');
          fracPart = (if hasFraction then takeWhile is_digit (drop 1 s2) else []);
          s3 = (if hasFraction then dropWhile is_digit (drop 1 s2) else s2);
          hasExponent = (take 1 s3 = ''e'' \<or> take 1 s3 = ''E'');
          s4 = (if hasExponent then drop 1 s3 else s3);
          expNegative = (hasExponent \<and> take 1 s4 = ''-'');
          s5 = (if hasExponent \<and> (take 1 s4 = ''-'' \<or> take 1 s4 = ''+'') then drop 1 s4 else s4);
          expPart = (if hasExponent then takeWhile is_digit s5 else []);
          s6 = (if hasExponent then dropWhile is_digit s5 else s3);
          mantissa = of_int (int_of_digits (intPart @ fracPart)) :: rat;
          up = (if expNegative then 0 else nat (int_of_digits expPart));
          down = length fracPart + (if expNegative then nat (int_of_digits expPart) else 0);
          magnitude = mantissa * 10 ^ up / 10 ^ down
      in if intPart = [] \<or> (1 < length intPart \<and> take 1 intPart = ''0'') then None
         else if hasFraction \<and> fracPart = [] then None
         else if hasExponent \<and> expPart = [] then None
         else Some (if negative then - magnitude else magnitude, s6))"

text \<open>
  A value, the elements of an array after its opening bracket, and the members of an
  object after its opening brace, each with the text that follows.  The first argument
  bounds the depth of the calls; every call at a deeper level has consumed a character
  or is followed by one that does, so twice the length of the text is enough.
\<close>

fun parse_value :: "nat \<Rightarrow> string \<Rightarrow> (json \<times> string) option"
  and parse_elements :: "nat \<Rightarrow> string \<Rightarrow> (json list \<times> string) option"
  and parse_members :: "nat \<Rightarrow> string \<Rightarrow> ((string \<times> json) list \<times> string) option"
where
  "parse_value 0 s = None"
| "parse_value (Suc n) s =
     (case s of
        [] \<Rightarrow> None
      | c # cs \<Rightarrow>
          if c = CHR ''{'' then
            (if take 1 (json_ws cs) = ''}'' then Some (JObject [], drop 1 (json_ws cs))
             else map_option (apfst JObject) (parse_members n (json_ws cs)))
          else if c = CHR ''['' then
            (if take 1 (json_ws cs) = '']'' then Some (JArray [], drop 1 (json_ws cs))
             else map_option (apfst JArray) (parse_elements n (json_ws cs)))
          else if c = CHR 0x22 then map_option (apfst JString) (parse_chars (length cs) cs)
          else if c = CHR ''-'' \<or> is_digit c then map_option (apfst JNumber) (parse_number s)
          else if take 4 s = ''true'' then Some (JBool True, drop 4 s)
          else if take 5 s = ''false'' then Some (JBool False, drop 5 s)
          else if take 4 s = ''null'' then Some (JNull, drop 4 s)
          else None)"
| "parse_elements 0 s = None"
| "parse_elements (Suc n) s =
     (case parse_value n s of
        None \<Rightarrow> None
      | Some (v, rest) \<Rightarrow>
          if take 1 (json_ws rest) = '','' then
            map_option (apfst ((#) v)) (parse_elements n (json_ws (drop 1 (json_ws rest))))
          else if take 1 (json_ws rest) = '']'' then Some ([v], drop 1 (json_ws rest))
          else None)"
| "parse_members 0 s = None"
| "parse_members (Suc n) s =
     (if take 1 s \<noteq> [CHR 0x22] then None
      else
        (case parse_chars (length s) (drop 1 s) of
           None \<Rightarrow> None
         | Some (k, rest) \<Rightarrow>
             if take 1 (json_ws rest) \<noteq> '':'' then None
             else
               (case parse_value n (json_ws (drop 1 (json_ws rest))) of
                  None \<Rightarrow> None
                | Some (v, rest') \<Rightarrow>
                    if take 1 (json_ws rest') = '','' then
                      map_option (apfst ((#) (k, v))) (parse_members n (json_ws (drop 1 (json_ws rest'))))
                    else if take 1 (json_ws rest') = ''}'' then Some ([(k, v)], drop 1 (json_ws rest'))
                    else None)))"

text \<open>
  \<^verbatim>\<open>JSON.parse\<close>: one value, with white space around it and nothing else.
\<close>

definition json_parse :: "string \<Rightarrow> json option" where
  "json_parse s =
     (case parse_value (2 * length s + 2) (json_ws s) of
        None \<Rightarrow> None
      | Some (v, rest) \<Rightarrow> if json_ws rest = [] then Some v else None)"

text \<open>
  The decimal digits of a number that is not negative.
\<close>

definition digit_char :: "int \<Rightarrow> char" where
  "digit_char d = char_of (48 + d)"

function decimal :: "int \<Rightarrow> string" where
  "decimal n = (if n < 10 then [digit_char n] else decimal (n div 10) @ [digit_char (n mod 10)])"
  by pat_completeness auto
termination
  by (relation "measure nat") auto

text \<open>
  How often \<open>p\<close> divides \<open>n\<close>.
\<close>

function count_factor :: "int \<Rightarrow> int \<Rightarrow> nat" where
  "count_factor p n =
     (if 1 < p \<and> 0 < n \<and> n mod p = 0 then Suc (count_factor p (n div p)) else 0)"
  by pat_completeness auto
termination
  by (relation "measure (\<lambda>(p, n). nat n)") (auto intro!: int_div_less_self)

text \<open>
  The text of a positive number \<open>a / b\<close> in lowest terms, as ECMAScript writes
  numbers: with digits \<open>ds\<close>, \<open>k\<close> of them, and the decimal point after the
  \<open>n\<close>-th digit, plain notation is used for \<open>n\<close> from -5 to 21 and exponent
  notation otherwise.  A number without a finite decimal expansion is no value of the
  runtime; it is written as \<^verbatim>\<open>null\<close>, like the numbers that are not finite.
\<close>

definition positive_text :: "int \<Rightarrow> int \<Rightarrow> string" where
  "positive_text a b =
     (let e = max (count_factor 2 b) (count_factor 5 b) in
      if (a * 10 ^ e) mod b \<noteq> 0 then ''null''
      else
        (let s0 = (a * 10 ^ e) div b;
             z = count_factor 10 s0;
             ds = decimal (s0 div 10 ^ z);
             k = length ds;
             n = int k + int z - int e
         in if int k \<le> n \<and> n \<le> 21 then ds @ replicate (nat (n - int k)) CHR ''0''
            else if 0 < n \<and> n \<le> 21 then take (nat n) ds @ ''.'' @ drop (nat n) ds
            else if - 6 < n \<and> n \<le> 0 then ''0.'' @ replicate (nat (- n)) CHR ''0'' @ ds
            else take 1 ds @ (if k = 1 then [] else ''.'' @ drop 1 ds) @ ''e''
                 @ (if 0 \<le> n - 1 then ''+'' else ''-'') @ decimal \<bar>n - 1\<bar>))"

definition number_text :: "rat \<Rightarrow> string" where
  "number_text q =
     (let a = fst (quotient_of q); b = snd (quotient_of q) in
      if a = 0 then ''0''
      else if a < 0 then ''-'' @ positive_text (- a) b
      else positive_text a b)"

text \<open>
  A string in quotes: the quote, the backslash and the control characters are escaped.
\<close>

definition hex_char :: "int \<Rightarrow> char" where
  "hex_char d = (if d < 10 then char_of (48 + d) else char_of (87 + d))"

definition quote_char :: "char \<Rightarrow> string" where
  "quote_char c =
     (if c = CHR 0x22 then [CHR 0x5C, CHR 0x22]
      else if c = CHR 0x5C then [CHR 0x5C, CHR 0x5C]
      else if c = CHR 0x08 then [CHR 0x5C, CHR ''b'']
      else if c = CHR 0x0C then [CHR 0x5C, CHR ''f'']
      else if c = CHR 0x0A then [CHR 0x5C, CHR ''n'']
      else if c = CHR 0x0D then [CHR 0x5C, CHR ''r'']
      else if c = CHR 0x09 then [CHR 0x5C, CHR ''t'']
      else if (of_char c :: int) < 32
      then [CHR 0x5C, CHR ''u'', CHR ''0'', CHR ''0'',
            hex_char ((of_char c :: int) div 16), hex_char ((of_char c :: int) mod 16)]
      else [c])"

definition quote :: "string \<Rightarrow> string" where
  "quote s = [CHR 0x22] @ concat (map quote_char s) @ [CHR 0x22]"

fun join :: "string \<Rightarrow> string list \<Rightarrow> string" where
  "join sep [] = []"
| "join sep [x] = x"
| "join sep (x # y # ys) = x @ sep @ join sep (y # ys)"

text \<open>
  \<^verbatim>\<open>JSON.stringify\<close> of a value, without indentation.
\<close>

fun json_stringify :: "json \<Rightarrow> string" where
  "json_stringify JNull = ''null''"
| "json_stringify (JBool b) = (if b then ''true'' else ''false'')"
| "json_stringify (JNumber q) = number_text q"
| "json_stringify (JString s) = quote s"
| "json_stringify (JArray vs) = ''['' @ join '','' (map json_stringify vs) @ '']''"
| "json_stringify (JObject kvs) =
     ''{'' @ join '','' (map (\<lambda>kv. quote (fst kv) @ '':'' @ json_stringify (snd kv)) kvs) @ ''}''"

text \<open>
  The conversion of a value to text (\<^verbatim>\<open>String(v)\<close>): an array is the list of its
  elements with commas between them, where \<^verbatim>\<open>null\<close> is empty and the first element
  that throws makes the conversion throw.  An object with a member \<^verbatim>\<open>toString\<close> of
  its own cannot be converted (a member read from JSON is no function, and the inherited
  \<^verbatim>\<open>valueOf\<close> gives the object back); every other object is \<^verbatim>\<open>[object Object]\<close>.
\<close>

fun collect :: "(js_error + string) list \<Rightarrow> js_error + string list" where
  "collect [] = Inr []"
| "collect (Inl err # rest) = Inl err"
| "collect (Inr text # rest) =
     (case collect rest of Inl err \<Rightarrow> Inl err | Inr texts \<Rightarrow> Inr (text # texts))"

fun to_string :: "json \<Rightarrow> js_error + string" where
  "to_string JNull = Inr ''null''"
| "to_string (JBool b) = Inr (if b then ''true'' else ''false'')"
| "to_string (JNumber q) = Inr (number_text q)"
| "to_string (JString s) = Inr s"
| "to_string (JArray vs) =
     (case collect (map (\<lambda>v. if v = JNull then Inr [] else to_string v) vs) of
        Inl err \<Rightarrow> Inl err
      | Inr texts \<Rightarrow> Inr (join '','' texts))"
| "to_string (JObject kvs) =
     (if map_of kvs ''toString'' \<noteq> None then Inl TypeError else Inr ''[object Object]'')"

text \<open>
  The runtime of the examples, for a given token verification and a given file system.
\<close>

definition js :: "(string \<Rightarrow> string \<Rightarrow> JWTPayload option) \<Rightarrow> (string \<Rightarrow> string option) \<Rightarrow> runtime" where
  "js verify files =
     \<lparr>JSON_parse = json_parse, JSON_stringify = json_stringify, ToString = to_string,
      jwt_verify = verify, readFileSync = files\<rparr>"

text \<open>A runtime in which no token verifies and no file can be read.\<close>

definition plain :: runtime where
  "plain = js (\<lambda>token secret. None) (\<lambda>path. None)"

subsection \<open>The chunks of the scenarios\<close>

definition denied_request :: string where
  \<open>denied_request = ''{"jsonrpc":"2.0","id":1,"method":"tools/call","params":{}}''\<close>

definition denied_message :: json where
  "denied_message =
     JObject [(''jsonrpc'', JString ''2.0''), (''id'', JNumber 1),
       (''method'', JString ''tools/call''), (''params'', JObject [])]"

definition denied_answer :: string where
  \<open>denied_answer = ''{"jsonrpc":"2.0","id":1,"error":{"code":-32601,"message":"Method not allowed: Access denied for method 'tools/call'"}}''\<close>

definition list_request :: string where
  \<open>list_request = ''{"jsonrpc":"2.0","id":2,"method":"tools/list"}''\<close>

definition list_message :: json where
  "list_message =
     JObject [(''jsonrpc'', JString ''2.0''), (''id'', JNumber 2), (''method'', JString ''tools/list'')]"



definition unconvertible_request :: string where
  \<open>unconvertible_request = ''{"jsonrpc":"2.0","id":1,"method":{"toString":1}}''\<close>


definition old_version_request :: string where
  \<open>old_version_request = ''{"jsonrpc":"1.0","id":1,"method":"tools/call"}''\<close>

definition batch_request :: string where
  \<open>batch_request = ''[{"jsonrpc":"2.0","id":1,"method":"tools/call"}]''\<close>

definition result_message_text :: string where
  \<open>result_message_text = ''{"jsonrpc":"2.0","id":1,"result":"success"}''\<close>

definition result_message :: json where
  "result_message =
     JObject [(''jsonrpc'', JString ''2.0''), (''id'', JNumber 1), (''result'', JString ''success'')]"

definition falsy_id_answer :: string where
  \<open>falsy_id_answer = ''{"jsonrpc":"2.0","id":null,"error":{"code":-32601,"message":"Method not allowed: Access denied"}}''\<close>

definition broken_config_text :: string where
  \<open>broken_config_text = ''{"permissions": {"admin": {"allowedMethods": ["*"]''\<close>

subsection \<open>The servers and sessions of the scenarios\<close>

text \<open>A server with a secret and no other option, for either listener.\<close>

definition secured :: "protocol \<Rightarrow> Options" where
  "secured proto =
     \<lparr>protocol = proto, jwtSecret = Some ''secret'', requiredRoles = None,
      permissionsConfigPath = None\<rparr>"

text \<open>
  A token verification that accepts one token, issued to alice with the role user, and
  a world in which every write succeeds.
\<close>

definition one_token :: "string \<Rightarrow> string \<Rightarrow> JWTPayload option" where
  "one_token token secret =
     (if token = ''token-of-alice'' \<and> secret = ''secret''
      then Some \<lparr>user = Some ''alice'', roles = Some [''user'']\<rparr>
      else None)"

definition calm :: environment where
  "calm = \<lparr>stdinUsable = True, writeThrows = False\<rparr>"

definition greeting :: string where
  \<open>greeting = ''{"jsonrpc":"2.0","result":{"authenticated":true,"user":"alice","roles":["user"]}}''\<close>

definition timeout_answer :: string where
  \<open>timeout_answer = ''{"jsonrpc":"2.0","error":{"code":-32003,"message":"Authentication timeout","data":{"timeout":"10 seconds"}}}''\<close>

text \<open>The runtime of the examples with that token verification and no files.\<close>

definition with_token :: runtime where
  "with_token = js one_token (\<lambda>path. None)"

section \<open>The permission decision\<close>

lemma array_includes_text: "array_includes xs (JString m) = (m \<in> set xs)"
  by (auto simp: array_includes_def)

lemma loop_is_first_vote:
  "plain_roles c rs \<Longrightarrow>
     isMethodAllowed_loop (JString m) rs c = Inr (first_vote (map (role_vote c m) rs))"
  by (induction rs)
     (auto simp: plain_roles_def role_vote_def mentions_def array_includes_text split: option.split)

text \<open>
  On role lists without an inherited name that is no key, \<^verbatim>\<open>isMethodAllowed\<close>
  returns what the reference algorithm of the specification gives.
\<close>

lemma isMethodAllowed_reference_plain_roles:
  "plain_roles c rs \<Longrightarrow>
     isMethodAllowed (JString m) rs c = Inr (isMethodAllowed_reference m rs c)"
  by (simp add: isMethodAllowed_def isMethodAllowed_reference_def loop_is_first_vote)

lemma inherited_role_throws:
  "permissions c r = None \<Longrightarrow> r \<in> set inherited \<Longrightarrow>
     isMethodAllowed v (r # rs) c = Inl TypeError"
  by (simp add: isMethodAllowed_def)

lemma scenario_user: "permissions scenario_config ''user''
    = Some \<lparr>allowedMethods = [''tools/list''], blockedMethods = [''tools/call'']\<rparr>"
  by (simp add: scenario_config_def)

lemma scenario_admin: "permissions scenario_config ''admin''
    = Some \<lparr>allowedMethods = [''*''], blockedMethods = []\<rparr>"
  by (simp add: scenario_config_def)

lemma scenario_constructor: "permissions scenario_config ''constructor'' = None"
  by (simp add: scenario_config_def)

text \<open>The scenario of the specification: the roles user and admin, in this order.\<close>

lemma user_then_admin:
  "isMethodAllowed (JString ''tools/call'') [''user'', ''admin''] scenario_config = Inr False"
  "isMethodAllowed (JString ''tools/list'') [''user'', ''admin''] scenario_config = Inr True"
  by (simp_all add: isMethodAllowed_def scenario_user scenario_admin array_includes_text)

text \<open>
  Claim C1 fails on the code.  The scenario configuration has no role constructor, so
  the reference algorithm skips that role and lets the role admin allow tools/list.  The
  code finds the inherited member of that name, does not skip it, and throws a type
  error when it reads its blocked methods.
\<close>

theorem inherited_role_name_is_not_skipped:
  "permissions scenario_config ''constructor'' = None
   \<and> isMethodAllowed_reference ''tools/list'' [''constructor'', ''admin''] scenario_config = True
   \<and> isMethodAllowed (JString ''tools/list'') [''constructor'', ''admin''] scenario_config
       = Inl TypeError"
proof -
  have reference:
    "isMethodAllowed_reference ''tools/list'' [''constructor'', ''admin''] scenario_config = True"
    by (simp add: isMethodAllowed_reference_def role_vote_def mentions_def
        scenario_constructor scenario_admin)
  have code: "isMethodAllowed (JString ''tools/list'') [''constructor'', ''admin''] scenario_config
       = Inl TypeError"
    by (rule inherited_role_throws [OF scenario_constructor]) (simp add: inherited_def)
  from scenario_constructor reference code show ?thesis by blast
qed

section \<open>The message filter\<close>

subsection \<open>The message a chunk is judged by\<close>

lemma parseMCPMessage_lines_find:
  "parseMCPMessage_lines (JSON_parse rt) ls =
     (case find (is_message_line rt) ls of None \<Rightarrow> None | Some line \<Rightarrow> JSON_parse rt line)"
  by (induction ls) (auto simp: is_message_line_def split: option.splits json.splits sum.splits)

lemma parseMCPMessage_first_message: "parseMCPMessage rt data = first_message rt data"
  by (simp add: parseMCPMessage_def first_message_def chunk_lines_def parseMCPMessage_lines_find)

lemma first_message_object:
  assumes "first_message rt data = Some message"
  shows "\<exists>kvs. message = JObject kvs \<and> map_of (rev kvs) ''jsonrpc'' = Some (JString ''2.0'')"
proof -
  from assms obtain line where found: "find (is_message_line rt) (chunk_lines data) = Some line"
    and parsed: "JSON_parse rt line = Some message"
    by (auto simp: first_message_def split: option.splits)
  from found have "is_message_line rt line"
    by (auto simp: find_Some_iff)
  with parsed show ?thesis
    by (auto simp: is_message_line_def split: json.splits)
qed

lemma no_message_line_no_message:
  assumes "\<forall>line \<in> set (split CHR 0x0A data). \<not> is_message_line rt line"
  shows "first_message rt data = None"
proof -
  from assms have "find (is_message_line rt) (chunk_lines data) = None"
    by (auto simp: find_None_iff chunk_lines_def)
  then show ?thesis by (simp add: first_message_def)
qed

lemma createErrorResponse_not_empty: "createErrorResponse rt msgId message \<noteq> []"
  by (simp add: createErrorResponse_def)

text \<open>
  What the filter returns, when it returns, is the whole chunk, allowed, or no data and
  a response that is not empty.
\<close>

lemma filter_result_cases:
  assumes "createMessageFilter rt rs cfg data = Inr result"
  shows "result = \<lparr>allowed = True, response = None, filteredData = Some data\<rparr>
   \<or> (\<exists>answer. answer \<noteq> [] \<and>
         result = \<lparr>allowed = False, response = Some answer, filteredData = None\<rparr>)"
  using assms
  by (auto simp: createMessageFilter_def pass_def createErrorResponse_not_empty
      split: option.splits sum.splits if_splits bool.splits)

lemma filter_without_message:
  "first_message rt data = None \<Longrightarrow>
     createMessageFilter rt rs cfg data
       = Inr \<lparr>allowed = True, response = None, filteredData = Some data\<rparr>"
  by (simp add: createMessageFilter_def parseMCPMessage_first_message pass_def split: option.split)

text \<open>
  Two chunks with the same first message fare alike: the filter throws on both or on
  neither, and when it returns, the verdict and the response are the same.
\<close>

lemma filter_same_message:
  assumes "first_message rt data = first_message rt data'"
  shows "map_sum id allowed (createMessageFilter rt rs cfg data)
           = map_sum id allowed (createMessageFilter rt rs cfg data')"
    and "map_sum id response (createMessageFilter rt rs cfg data)
           = map_sum id response (createMessageFilter rt rs cfg data')"
  using assms
  by (auto simp: createMessageFilter_def parseMCPMessage_first_message pass_def
      split: option.splits sum.splits bool.splits)

lemma filtered_stdin:
  "toStdin (filtered rt proto cfg env rs data s) = toStdin s
   \<or> toStdin (filtered rt proto cfg env rs data s) = toStdin s @ [data]"
proof (cases "createMessageFilter rt rs cfg data")
  case (Inl err)
  then show ?thesis by (simp add: filtered_def split: protocol.split)
next
  case (Inr result)
  with filter_result_cases [OF Inr] show ?thesis
    by (auto simp: filtered_def to_subprocess_def split: protocol.splits if_splits)
qed

subsection \<open>The scenarios, evaluated\<close>



lemma list_then_call_message:
  "first_message plain (list_request @ [CHR 0x0A] @ denied_request) = Some list_message"
  by code_simp



lemma result_text_message: "first_message plain result_message_text = Some result_message"
  by code_simp

lemma prose_then_call_message:
  "first_message plain (''not a json message'' @ [CHR 0x0A] @ denied_request) = Some denied_message"
  by code_simp

lemma prose_has_no_message: "first_message plain ''not a json message'' = None"
  by code_simp


lemma user_call: "isMethodAllowed (JString ''tools/call'') [''user''] scenario_config = Inr False"
  by (simp add: isMethodAllowed_def scenario_user array_includes_text)

lemma user_list: "isMethodAllowed (JString ''tools/list'') [''user''] scenario_config = Inr True"
  by (simp add: isMethodAllowed_def scenario_user array_includes_text)


lemma user_unconvertible_method:
  "isMethodAllowed (JObject [(''toString'', JNumber 1)]) [''user''] scenario_config = Inr False"
  by (simp add: isMethodAllowed_def scenario_user array_includes_def)


subsection \<open>Claim C2\<close>




subsection \<open>Claim C3\<close>

text \<open>
  What holds of the coarse decision: the message \<^verbatim>\<open>parseMCPMessage\<close> hands to the
  filter is the first non-blank line of the chunk that parses as JSON with the protocol
  version 2.0; two chunks with the same first message get the same outcome; a filter
  that returns gives back the whole chunk or no data and an error response; and the
  session handler writes to the subprocess the whole chunk or nothing.
\<close>

lemma chunk_judged_by_first_message:
  "parseMCPMessage rt data = first_message rt data"
  "first_message rt data = first_message rt data' \<Longrightarrow>
     map_sum id allowed (createMessageFilter rt rs cfg data)
       = map_sum id allowed (createMessageFilter rt rs cfg data')
     \<and> map_sum id response (createMessageFilter rt rs cfg data)
       = map_sum id response (createMessageFilter rt rs cfg data')"
  "createMessageFilter rt rs cfg data = Inr result \<Longrightarrow>
     result = \<lparr>allowed = True, response = None, filteredData = Some data\<rparr>
     \<or> (\<exists>answer. result = \<lparr>allowed = False, response = Some answer, filteredData = None\<rparr>)"
  "toStdin (filtered rt proto cfg env rs data s) = toStdin s
     \<or> toStdin (filtered rt proto cfg env rs data s) = toStdin s @ [data]"
  using parseMCPMessage_first_message [of rt data] filter_same_message [of rt data data' rs cfg]
    filter_result_cases [of rt rs cfg data result] filtered_stdin [of rt proto cfg env rs data s]
  by blast+

lemma list_then_call_forwarded:
  "createMessageFilter plain [''user''] (Some scenario_config)
     (list_request @ [CHR 0x0A] @ denied_request)
   = Inr \<lparr>allowed = True, response = None,
          filteredData = Some (list_request @ [CHR 0x0A] @ denied_request)\<rparr>"
  by (simp add: createMessageFilter_def parseMCPMessage_first_message
      list_then_call_message [simplified] list_message_def user_list pass_def)


subsection \<open>Claim C5\<close>

text \<open>
  Claim C5.  Without a configuration the filter allows every chunk and returns it
  unchanged.  With a configuration it does the same for a chunk in which no line parses
  as a message of version 2.0, and for a chunk whose first such message has no method
  field.
\<close>

theorem filter_passes_other_traffic:
  "createMessageFilter rt rs None data
     = Inr \<lparr>allowed = True, response = None, filteredData = Some data\<rparr>
   \<and> (first_message rt data = None \<longrightarrow>
        createMessageFilter rt rs (Some c) data
          = Inr \<lparr>allowed = True, response = None, filteredData = Some data\<rparr>)
   \<and> (first_message rt data = Some message \<and> property message ''method'' = Inr None \<longrightarrow>
        createMessageFilter rt rs (Some c) data
          = Inr \<lparr>allowed = True, response = None, filteredData = Some data\<rparr>)"
  by (simp add: createMessageFilter_def parseMCPMessage_first_message pass_def)

text \<open>
  A line of prose and a response without a method, sent by a session without any role
  under the scenario configuration: both pass unchanged.
\<close>

theorem filter_passes_other_traffic_witness:
  "first_message plain ''not a json message'' = None
   \<and> createMessageFilter plain [] (Some scenario_config) ''not a json message''
       = Inr \<lparr>allowed = True, response = None, filteredData = Some ''not a json message''\<rparr>
   \<and> first_message plain result_message_text = Some result_message
   \<and> property result_message ''method'' = Inr None
   \<and> createMessageFilter plain [] (Some scenario_config) result_message_text
       = Inr \<lparr>allowed = True, response = None, filteredData = Some result_message_text\<rparr>
   \<and> createMessageFilter plain [] None denied_request
       = Inr \<lparr>allowed = True, response = None, filteredData = Some denied_request\<rparr>"
proof -
  have no_method: "property result_message ''method'' = Inr None"
    by (simp add: result_message_def)
  note general = filter_passes_other_traffic
  from general [of plain "[]" "''not a json message''" scenario_config] prose_has_no_message
  have prose: "createMessageFilter plain [] (Some scenario_config) ''not a json message''
       = Inr \<lparr>allowed = True, response = None, filteredData = Some ''not a json message''\<rparr>"
    by blast
  from general [of plain "[]" result_message_text scenario_config result_message]
    result_text_message no_method
  have result: "createMessageFilter plain [] (Some scenario_config) result_message_text
       = Inr \<lparr>allowed = True, response = None, filteredData = Some result_message_text\<rparr>"
    by blast
  from general [of plain "[]" denied_request]
  have "open": "createMessageFilter plain [] None denied_request
       = Inr \<lparr>allowed = True, response = None, filteredData = Some denied_request\<rparr>"
    by blast
  from prose_has_no_message prose result_text_message no_method result "open"
  show ?thesis by blast
qed

subsection \<open>Claim C10\<close>

lemma old_version_parses:
  "json_parse old_version_request
     = Some (JObject [(''jsonrpc'', JString ''1.0''), (''id'', JNumber 1),
               (''method'', JString ''tools/call'')])"
  by code_simp

lemma batch_parses:
  "json_parse batch_request
     = Some (JArray [JObject [(''jsonrpc'', JString ''2.0''), (''id'', JNumber 1),
               (''method'', JString ''tools/call'')]])"
  by code_simp

lemma old_version_lines: "split CHR 0x0A old_version_request = [old_version_request]"
  by code_simp

lemma batch_lines: "split CHR 0x0A batch_request = [batch_request]"
  by code_simp

lemma old_version_no_message: "is_message_line plain old_version_request = False"
  by (simp add: is_message_line_def plain_def js_def old_version_parses)

lemma batch_no_message: "is_message_line plain batch_request = False"
  by (simp add: is_message_line_def plain_def js_def batch_parses)

text \<open>
  Claim C10.  A chunk none of whose lines parses as a JSON object with the member
  jsonrpc equal to the text 2.0 is allowed and returned unchanged, whatever the roles
  and the configuration are.  Such chunks can name a method that is blocked for the
  roles of the session: a request of version 1.0 for tools/call, and a batch (an array)
  that holds a request of version 2.0 for tools/call, both sent by the role user, for
  which tools/call is blocked, are forwarded as they are.
\<close>

theorem unframed_requests_pass:
  "((\<forall>line \<in> set (split CHR 0x0A data). \<not> is_message_line rt line) \<longrightarrow>
      createMessageFilter rt rs cfg data
        = Inr \<lparr>allowed = True, response = None, filteredData = Some data\<rparr>)
   \<and> isMethodAllowed (JString ''tools/call'') [''user''] scenario_config = Inr False
   \<and> json_parse old_version_request
       = Some (JObject [(''jsonrpc'', JString ''1.0''), (''id'', JNumber 1),
                 (''method'', JString ''tools/call'')])
   \<and> createMessageFilter plain [''user''] (Some scenario_config) old_version_request
       = Inr \<lparr>allowed = True, response = None, filteredData = Some old_version_request\<rparr>
   \<and> json_parse batch_request
       = Some (JArray [JObject [(''jsonrpc'', JString ''2.0''), (''id'', JNumber 1),
                 (''method'', JString ''tools/call'')]])
   \<and> createMessageFilter plain [''user''] (Some scenario_config) batch_request
       = Inr \<lparr>allowed = True, response = None, filteredData = Some batch_request\<rparr>"
proof -
  have general: "createMessageFilter rt rs cfg data
        = Inr \<lparr>allowed = True, response = None, filteredData = Some data\<rparr>"
    if "\<forall>line \<in> set (split CHR 0x0A data). \<not> is_message_line rt line"
    for rt rs cfg data
    using that by (simp add: no_message_line_no_message filter_without_message)
  have old: "createMessageFilter plain [''user''] (Some scenario_config) old_version_request
       = Inr \<lparr>allowed = True, response = None, filteredData = Some old_version_request\<rparr>"
    by (rule general) (simp add: old_version_lines old_version_no_message)
  have batch: "createMessageFilter plain [''user''] (Some scenario_config) batch_request
       = Inr \<lparr>allowed = True, response = None, filteredData = Some batch_request\<rparr>"
    by (rule general) (simp add: batch_lines batch_no_message)
  from general [of data rt rs cfg] user_call old_version_parses old batch_parses batch
  show ?thesis by blast
qed

text \<open>
  The same for a chunk of two lines, neither of them a message of version 2.0: the
  request of version 1.0 and the batch, sent together.
\<close>

theorem unframed_requests_pass_witness:
  "split CHR 0x0A (old_version_request @ [CHR 0x0A] @ batch_request)
       = [old_version_request, batch_request]
   \<and> is_message_line plain old_version_request = False
   \<and> is_message_line plain batch_request = False
   \<and> createMessageFilter plain [''user''] (Some scenario_config)
        (old_version_request @ [CHR 0x0A] @ batch_request)
       = Inr \<lparr>allowed = True, response = None,
              filteredData = Some (old_version_request @ [CHR 0x0A] @ batch_request)\<rparr>"
proof -
  let ?both = "old_version_request @ [CHR 0x0A] @ batch_request"
  have lines: "split CHR 0x0A ?both = [old_version_request, batch_request]"
    by code_simp
  have none: "\<forall>line \<in> set (split CHR 0x0A ?both). \<not> is_message_line plain line"
    by (simp only: lines) (simp add: old_version_no_message batch_no_message)
  with unframed_requests_pass [of ?both plain "[''user'']" "Some scenario_config"]
  have "createMessageFilter plain [''user''] (Some scenario_config) ?both
       = Inr \<lparr>allowed = True, response = None, filteredData = Some ?both\<rparr>"
    by blast
  with lines old_version_no_message batch_no_message show ?thesis by blast
qed

section \<open>The error response\<close>

lemma createErrorResponse_truthy_id:
  "truthy v \<Longrightarrow>
     createErrorResponse rt (Some v) reason =
       JSON_stringify rt
         (JObject
            [(''jsonrpc'', JString ''2.0''),
             (''id'', v),
             (''error'',
                JObject
                  [(''code'', JNumber (- 32601)),
                   (''message'', JString (''Method not allowed: '' @ reason))])])
       @ [CHR 0x0A]"
  by (simp add: createErrorResponse_def errorResponse_def)

lemma createErrorResponse_absent_id:
  "createErrorResponse rt None reason =
       JSON_stringify rt
         (JObject
            [(''jsonrpc'', JString ''2.0''),
             (''id'', JNull),
             (''error'',
                JObject
                  [(''code'', JNumber (- 32601)),
                   (''message'', JString (''Method not allowed: '' @ reason))])])
       @ [CHR 0x0A]"
  by (simp add: createErrorResponse_def errorResponse_def)

text \<open>
  Claim C6 fails on the code.  The id of the response is \<^verbatim>\<open>id || null\<close>, so an id
  that is there and falsy, the number 0 or the empty text, is answered with the id
  \<^verbatim>\<open>null\<close>: for every reason the response to the id 0 is the serialised object whose
  id is \<^verbatim>\<open>null\<close>, and in the runtime of the examples the line sent carries
  \<^verbatim>\<open>"id":null\<close>.  The same holds for the empty text as id.
\<close>

theorem falsy_id_answered_with_null:
  "createErrorResponse rt (Some (JNumber 0)) reason =
       JSON_stringify rt
         (JObject
            [(''jsonrpc'', JString ''2.0''),
             (''id'', JNull),
             (''error'',
                JObject
                  [(''code'', JNumber (- 32601)),
                   (''message'', JString (''Method not allowed: '' @ reason))])])
       @ [CHR 0x0A]
   \<and> createErrorResponse rt (Some (JString [])) reason = createErrorResponse rt None reason
   \<and> createErrorResponse plain (Some (JNumber 0)) ''Access denied'' = falsy_id_answer @ [CHR 0x0A]"
proof -
  have zero: "createErrorResponse rt (Some (JNumber 0)) reason =
       JSON_stringify rt
         (JObject
            [(''jsonrpc'', JString ''2.0''),
             (''id'', JNull),
             (''error'',
                JObject
                  [(''code'', JNumber (- 32601)),
                   (''message'', JString (''Method not allowed: '' @ reason))])])
       @ [CHR 0x0A]"
    by (simp add: createErrorResponse_def errorResponse_def)
  have empty: "createErrorResponse rt (Some (JString [])) reason = createErrorResponse rt None reason"
    by (simp add: createErrorResponse_def errorResponse_def)
  have sent: "createErrorResponse plain (Some (JNumber 0)) ''Access denied'' = falsy_id_answer @ [CHR 0x0A]"
    by code_simp
  from zero empty sent show ?thesis by blast
qed

section \<open>Required roles\<close>

text \<open>
  Claim C7.  \<^verbatim>\<open>hasRequiredRoles\<close> is true when no role is required; it is false when
  a role is required and the user's roles are absent or empty; and otherwise it is true
  exactly when the user holds one of the required roles.
\<close>

theorem hasRequiredRoles_contract:
  "hasRequiredRoles userRoles [] = True
   \<and> (required \<noteq> [] \<longrightarrow>
        hasRequiredRoles None required = False
        \<and> hasRequiredRoles (Some []) required = False)
   \<and> (required \<noteq> [] \<and> held \<noteq> [] \<longrightarrow>
        hasRequiredRoles (Some held) required = (set held \<inter> set required \<noteq> {}))"
  by (auto simp: hasRequiredRoles_def list_ex_iff)

theorem hasRequiredRoles_contract_witness:
  "hasRequiredRoles (Some [''admin'']) [] = True
   \<and> hasRequiredRoles None [''admin''] = False
   \<and> hasRequiredRoles (Some []) [''admin''] = False
   \<and> hasRequiredRoles (Some [''admin'', ''user'']) [''admin'', ''moderator''] = True
   \<and> hasRequiredRoles (Some [''user'']) [''admin''] = False"
proof -
  note contract = hasRequiredRoles_contract
  from contract [of "Some [''admin'']"]
  have none_required: "hasRequiredRoles (Some [''admin'']) [] = True" by blast
  from contract [of None "[''admin'']"]
  have absent: "hasRequiredRoles None [''admin''] = False"
    and empty: "hasRequiredRoles (Some []) [''admin''] = False"
    by simp_all
  from contract [of None "[''admin'', ''moderator'']" "[''admin'', ''user'']"]
  have shared: "hasRequiredRoles (Some [''admin'', ''user'']) [''admin'', ''moderator''] = True"
    by simp
  from contract [of None "[''admin'']" "[''user'']"]
  have disjoint: "hasRequiredRoles (Some [''user'']) [''admin''] = False"
    by simp
  from none_required absent empty shared disjoint show ?thesis by blast
qed

section \<open>Start-up with a permissions file\<close>

text \<open>
  Claim C9.  When the option names a file (a path that is not empty) and the file cannot
  be read, or its text is not JSON, \<^verbatim>\<open>loadPermissionsConfig\<close> returns \<^verbatim>\<open>null\<close> and
  the server exits with status 1; it does not go on serving with no configuration, which
  would be the open policy.
\<close>

theorem unloadable_permissions_stop_startup:
  "path \<noteq> []
   \<and> (readFileSync rt path = None
        \<or> (\<exists>text. readFileSync rt path = Some text \<and> JSON_parse rt text = None))
   \<longrightarrow> loadPermissionsConfig rt path = JNull
       \<and> startServer_permissions rt (options\<lparr>permissionsConfigPath := Some path\<rparr>) = Exited 1
       \<and> startServer_permissions rt (options\<lparr>permissionsConfigPath := Some path\<rparr>) \<noteq> Serving JNull"
  by (auto simp: startServer_permissions_def loadPermissionsConfig_def)

text \<open>
  A file system that holds one file, whose text breaks off in the middle of an object:
  asking for that file, or for a file that is not there, stops the start-up.
\<close>

theorem unloadable_permissions_stop_startup_witness:
  "readFileSync (js (\<lambda>token secret. None) [''broken.json'' \<mapsto> broken_config_text]) ''missing.json'' = None
   \<and> startServer_permissions (js (\<lambda>token secret. None) [''broken.json'' \<mapsto> broken_config_text])
        \<lparr>protocol = Tcp, jwtSecret = None, requiredRoles = None,
         permissionsConfigPath = Some ''missing.json''\<rparr> = Exited 1
   \<and> readFileSync (js (\<lambda>token secret. None) [''broken.json'' \<mapsto> broken_config_text]) ''broken.json''
       = Some broken_config_text
   \<and> json_parse broken_config_text = None
   \<and> startServer_permissions (js (\<lambda>token secret. None) [''broken.json'' \<mapsto> broken_config_text])
        \<lparr>protocol = Tcp, jwtSecret = None, requiredRoles = None,
         permissionsConfigPath = Some ''broken.json''\<rparr> = Exited 1"
proof -
  let ?rt = "js (\<lambda>token secret. None) [''broken.json'' \<mapsto> broken_config_text]"
  let ?options = "\<lparr>protocol = Tcp, jwtSecret = None, requiredRoles = None,
         permissionsConfigPath = None\<rparr>"
  have missing: "readFileSync ?rt ''missing.json'' = None"
    by (simp add: js_def)
  have there: "readFileSync ?rt ''broken.json'' = Some broken_config_text"
    by (simp add: js_def)
  have broken: "json_parse broken_config_text = None"
    by code_simp
  then have broken': "JSON_parse ?rt broken_config_text = None"
    by (simp add: js_def)
  from unloadable_permissions_stop_startup [of "''missing.json''" ?rt ?options] missing
  have first: "startServer_permissions ?rt
        \<lparr>protocol = Tcp, jwtSecret = None, requiredRoles = None,
         permissionsConfigPath = Some ''missing.json''\<rparr> = Exited 1"
    by simp
  from unloadable_permissions_stop_startup [of "''broken.json''" ?rt ?options] there broken'
  have second: "startServer_permissions ?rt
        \<lparr>protocol = Tcp, jwtSecret = None, requiredRoles = None,
         permissionsConfigPath = Some ''broken.json''\<rparr> = Exited 1"
    by simp
  from missing first there broken second show ?thesis by blast
qed

section \<open>Sessions\<close>

lemma activity_keeps:
  "phase (activity s) = phase s"
  "toClient (activity s) = toClient s"
  "toStdin (activity s) = toStdin s"
  "authTimeout (activity s) = authTimeout s"
  by (simp_all add: activity_def split: option.split)

lemma filtered_rejected:
  assumes "createMessageFilter rt rs cfg data
             = Inr \<lparr>allowed = False, response = Some answer, filteredData = None\<rparr>"
    and "answer \<noteq> []" and "\<not> writeThrows env"
  shows "filtered rt proto cfg env rs data s = s\<lparr>toClient := toClient s @ [answer]\<rparr>"
  using assms by (simp add: filtered_def)

lemma filtered_passed:
  assumes "createMessageFilter rt rs cfg data
             = Inr \<lparr>allowed = True, response = None, filteredData = Some data\<rparr>"
    and "stdinUsable env" and "\<not> writeThrows env"
  shows "filtered rt proto cfg env rs data s = s\<lparr>toStdin := toStdin s @ [data]\<rparr>"
  using assms by (simp add: filtered_def to_subprocess_def)

text \<open>
  An authenticated session in a world where writes succeed stays authenticated, with the
  same roles, over any sequence of chunks on which the filter returns: each chunk is put
  to the filter of those roles, the chunks it allows go to the subprocess and the
  responses it makes go to the client, in order.
\<close>

lemma authenticated_run:
  assumes "stdinUsable env" and "\<not> writeThrows env"
  shows "phase s = Authenticated rs \<Longrightarrow>
     \<forall>d \<in> set chunks. \<exists>result. createMessageFilter rt rs cfg d = Inr result \<Longrightarrow>
     phase (run rt options cfg s (map (Data env) chunks)) = Authenticated rs
     \<and> toStdin (run rt options cfg s (map (Data env) chunks))
         = toStdin s @ List.map_filter
             (\<lambda>d. case createMessageFilter rt rs cfg d of
                     Inl err \<Rightarrow> None | Inr result \<Rightarrow> filteredData result) chunks
     \<and> toClient (run rt options cfg s (map (Data env) chunks))
         = toClient s @ List.map_filter
             (\<lambda>d. case createMessageFilter rt rs cfg d of
                     Inl err \<Rightarrow> None | Inr result \<Rightarrow> response result) chunks"
proof (induction chunks arbitrary: s)
  case Nil
  then show ?case by (simp add: run_def List.map_filter_simps)
next
  case (Cons d chunks)
  let ?s' = "step rt options cfg s (Data env d)"
  let ?kept = "\<lambda>d. case createMessageFilter rt rs cfg d of
                     Inl err \<Rightarrow> None | Inr result \<Rightarrow> filteredData result"
  let ?said = "\<lambda>d. case createMessageFilter rt rs cfg d of
                     Inl err \<Rightarrow> None | Inr result \<Rightarrow> response result"
  from Cons.prems(2) obtain result where returned: "createMessageFilter rt rs cfg d = Inr result"
    by auto
  from filter_result_cases [OF returned]
  have after: "phase ?s' = Authenticated rs
      \<and> toStdin ?s' = toStdin s @ List.map_filter ?kept [d]
      \<and> toClient ?s' = toClient s @ List.map_filter ?said [d]"
  proof
    assume "result = \<lparr>allowed = True, response = None, filteredData = Some d\<rparr>"
    with returned assms Cons.prems(1) show ?thesis
      by (simp add: activity_keeps filtered_passed List.map_filter_simps)
  next
    assume "\<exists>answer. answer \<noteq> [] \<and>
        result = \<lparr>allowed = False, response = Some answer, filteredData = None\<rparr>"
    then obtain answer where "answer \<noteq> []"
      and "result = \<lparr>allowed = False, response = Some answer, filteredData = None\<rparr>"
      by blast
    with returned assms Cons.prems(1) show ?thesis
      by (simp add: activity_keeps filtered_rejected List.map_filter_simps)
  qed
  then have "phase ?s' = Authenticated rs" by blast
  moreover from Cons.prems(2)
  have "\<forall>d \<in> set chunks. \<exists>result. createMessageFilter rt rs cfg d = Inr result" by simp
  ultimately show ?case using Cons.IH [of ?s'] after
    by (simp add: run_def List.map_filter_simps split: option.split sum.split)
qed

text \<open>
  A rejection that the filter returns is not the end of the session: when the write of
  the response does not throw, the response goes to the client, nothing goes to the
  subprocess, and the session is still authenticated with the same roles.  When the
  write throws, the TCP handler destroys the socket and the WebSocket handler goes on.
\<close>

lemma returned_rejection_keeps_session:
  assumes "phase s = Authenticated rs"
    and "createMessageFilter rt rs cfg data = Inr result" and "allowed result = False"
    and "\<not> writeThrows env"
  shows "\<exists>answer. response result = Some answer
     \<and> phase (step rt options cfg s (Data env data)) = Authenticated rs
     \<and> toClient (step rt options cfg s (Data env data)) = toClient s @ [answer]
     \<and> toStdin (step rt options cfg s (Data env data)) = toStdin s"
proof -
  from filter_result_cases [OF assms(2)] assms(3)
  obtain answer where "answer \<noteq> []"
    and "result = \<lparr>allowed = False, response = Some answer, filteredData = None\<rparr>"
    by auto
  with assms(1,2,4) show ?thesis
    by (simp add: activity_keeps filtered_rejected)
qed

lemma tcp_failed_write_closes:
  assumes "phase s = Authenticated rs" and "protocol options = Tcp"
    and "createMessageFilter rt rs cfg data = Inr result" and "allowed result = False"
    and "writeThrows env"
  shows "phase (step rt options cfg s (Data env data)) = Closed"
  using assms filter_result_cases [OF assms(3)]
  by (auto simp: filtered_def activity_keeps)

lemma ws_failed_write_survives:
  assumes "phase s = Authenticated rs" and "protocol options = Ws"
    and "createMessageFilter rt rs cfg data = Inr result" and "allowed result = False"
  shows "phase (step rt options cfg s (Data env data)) = Authenticated rs"
  using assms filter_result_cases [OF assms(3)]
  by (auto simp: filtered_def activity_keeps)

subsection \<open>The session of alice\<close>

lemma token_trimmed:
  "trim (''token-of-alice'' @ [CHR 0x0A]) = ''token-of-alice''"
  "trim ''token-of-alice'' = ''token-of-alice''"
  by code_simp+

lemma greeting_text:
  "JSON_stringify with_token
     (authenticationSucceeded \<lparr>user = Some ''alice'', roles = Some [''user'']\<rparr>) = greeting"
  by code_simp

lemma alice_verified:
  "jwt_verify with_token ''token-of-alice'' ''secret''
     = Some \<lparr>user = Some ''alice'', roles = Some [''user'']\<rparr>"
  by (simp add: with_token_def js_def one_token_def)

lemma alice_session:
  "step with_token (secured Tcp) cfg (accept (secured Tcp))
     (Data calm (''token-of-alice'' @ [CHR 0x0A]))
   = \<lparr>phase = Authenticated [''user''], authTimeout = None, idleTimeout = Some 300000,
      toClient = [greeting @ [CHR 0x0A]], toStdin = []\<rparr>"
  by (simp add: accept_def secured_def token_received_def token_trimmed [simplified]
      verifyJWTWithPayload_def alice_verified send_def and_then_def calm_def activity_def
      greeting_text)

lemma alice_session_ws:
  "step with_token (secured Ws) cfg (accept (secured Ws)) (Data calm ''token-of-alice'')
   = \<lparr>phase = Authenticated [''user''], authTimeout = None, idleTimeout = None,
      toClient = [greeting], toStdin = []\<rparr>"
  by (simp add: accept_def secured_def token_received_def token_trimmed [simplified]
      verifyJWTWithPayload_def alice_verified send_def and_then_def calm_def activity_def
      greeting_text)

lemma alice_denied:
  "createMessageFilter with_token [''user''] (Some scenario_config) denied_request
     = Inr \<lparr>allowed = False, response = Some (denied_answer @ [CHR 0x0A]), filteredData = None\<rparr>"
  by code_simp

lemma alice_listed:
  "createMessageFilter with_token [''user''] (Some scenario_config) list_request
     = Inr \<lparr>allowed = True, response = None, filteredData = Some list_request\<rparr>"
  by code_simp

lemma alice_unconvertible:
  "createMessageFilter with_token [''user''] (Some scenario_config) unconvertible_request
     = Inl TypeError"
  by code_simp

text \<open>
  A run of the TCP listener in which every rejection is returned: alice presents her
  token and is greeted; her call of tools/call is rejected; the tools/list that follows
  reaches the subprocess, and a second tools/call is rejected like the first.
\<close>

lemma alice_rejected_twice:
  "run with_token (secured Tcp) (Some scenario_config) (accept (secured Tcp))
     (map (Data calm)
        [''token-of-alice'' @ [CHR 0x0A], denied_request, list_request, denied_request])
   = \<lparr>phase = Authenticated [''user''], authTimeout = None, idleTimeout = Some 300000,
      toClient = [greeting @ [CHR 0x0A], denied_answer @ [CHR 0x0A], denied_answer @ [CHR 0x0A]],
      toStdin = [list_request]\<rparr>"
proof -
  have first: "run with_token (secured Tcp) (Some scenario_config) (accept (secured Tcp))
     (map (Data calm)
        [''token-of-alice'' @ [CHR 0x0A], denied_request, list_request, denied_request])
    = run with_token (secured Tcp) (Some scenario_config)
        \<lparr>phase = Authenticated [''user''], authTimeout = None, idleTimeout = Some 300000,
         toClient = [greeting @ [CHR 0x0A]], toStdin = []\<rparr>
        (map (Data calm) [denied_request, list_request, denied_request])"
    by (simp only: run_def list.map foldl.simps alice_session)
  show ?thesis
    unfolding first
    by (simp add: run_def secured_def filtered_def alice_denied alice_listed calm_def
        to_subprocess_def activity_def)
qed

subsection \<open>Claim C8\<close>

text \<open>
  Claim C8 fails on the code for the TCP listener.  Alice, authenticated with the role
  user, sends a request of version 2.0 whose method is an object with a member toString.
  \<^verbatim>\<open>isMethodAllowed\<close> returns false for it: the request fails authorization.  The
  template literal of the error message then throws, the TCP handler has called the
  filter outside every \<^verbatim>\<open>try\<close> block, and the exception ends the process: no error
  response is sent, and the tools/list that follows is not processed.  The WebSocket
  handler calls the filter inside a \<^verbatim>\<open>try\<close> block: there the session stays
  authenticated and the tools/list that follows reaches the subprocess.
\<close>

theorem authorization_failure_ends_tcp_server:
  "isMethodAllowed (JObject [(''toString'', JNumber 1)]) [''user''] scenario_config = Inr False
   \<and> run with_token (secured Tcp) (Some scenario_config) (accept (secured Tcp))
        (map (Data calm) [''token-of-alice'' @ [CHR 0x0A], unconvertible_request])
       = \<lparr>phase = Crashed, authTimeout = None, idleTimeout = Some 300000,
          toClient = [greeting @ [CHR 0x0A]], toStdin = []\<rparr>
   \<and> run with_token (secured Tcp) (Some scenario_config) (accept (secured Tcp))
        (map (Data calm) [''token-of-alice'' @ [CHR 0x0A], unconvertible_request, list_request])
       = \<lparr>phase = Crashed, authTimeout = None, idleTimeout = Some 300000,
          toClient = [greeting @ [CHR 0x0A]], toStdin = []\<rparr>
   \<and> run with_token (secured Ws) (Some scenario_config) (accept (secured Ws))
        (map (Data calm) [''token-of-alice'', unconvertible_request, list_request])
       = \<lparr>phase = Authenticated [''user''], authTimeout = None, idleTimeout = None,
          toClient = [greeting], toStdin = [list_request]\<rparr>"
proof -
  have tcp: "run with_token (secured Tcp) (Some scenario_config) (accept (secured Tcp))
        (map (Data calm) ((''token-of-alice'' @ [CHR 0x0A]) # later))
      = run with_token (secured Tcp) (Some scenario_config)
          \<lparr>phase = Authenticated [''user''], authTimeout = None, idleTimeout = Some 300000,
           toClient = [greeting @ [CHR 0x0A]], toStdin = []\<rparr>
          (map (Data calm) later)" for later
    by (simp only: run_def list.map foldl.simps alice_session)
  have ws: "run with_token (secured Ws) (Some scenario_config) (accept (secured Ws))
        (map (Data calm) (''token-of-alice'' # later))
      = run with_token (secured Ws) (Some scenario_config)
          \<lparr>phase = Authenticated [''user''], authTimeout = None, idleTimeout = None,
           toClient = [greeting], toStdin = []\<rparr>
          (map (Data calm) later)" for later
    by (simp only: run_def list.map foldl.simps alice_session_ws)
  have one: "run with_token (secured Tcp) (Some scenario_config) (accept (secured Tcp))
        (map (Data calm) [''token-of-alice'' @ [CHR 0x0A], unconvertible_request])
       = \<lparr>phase = Crashed, authTimeout = None, idleTimeout = Some 300000,
          toClient = [greeting @ [CHR 0x0A]], toStdin = []\<rparr>"
    unfolding tcp
    by (simp add: run_def secured_def filtered_def alice_unconvertible activity_def)
  have two: "run with_token (secured Tcp) (Some scenario_config) (accept (secured Tcp))
        (map (Data calm) [''token-of-alice'' @ [CHR 0x0A], unconvertible_request, list_request])
       = \<lparr>phase = Crashed, authTimeout = None, idleTimeout = Some 300000,
          toClient = [greeting @ [CHR 0x0A]], toStdin = []\<rparr>"
    unfolding tcp
    by (simp add: run_def secured_def filtered_def alice_unconvertible activity_def)
  have three: "run with_token (secured Ws) (Some scenario_config) (accept (secured Ws))
        (map (Data calm) [''token-of-alice'', unconvertible_request, list_request])
       = \<lparr>phase = Authenticated [''user''], authTimeout = None, idleTimeout = None,
          toClient = [greeting], toStdin = [list_request]\<rparr>"
    unfolding ws
    by (simp add: run_def secured_def filtered_def alice_unconvertible alice_listed
        activity_def to_subprocess_def calm_def)
  from user_unconvertible_method one two three show ?thesis by blast
qed

subsection \<open>Claim C4\<close>

lemma tcp_waits:
  assumes "protocol options = Tcp" and "given (jwtSecret options)" and "ms < 300000"
  shows "step rt options cfg (accept options) (Elapse env ms)
     = \<lparr>phase = AwaitingToken, authTimeout = None, idleTimeout = Some (300000 - ms),
        toClient = [], toStdin = []\<rparr>"
  using assms by (simp add: accept_def elapse_def)

lemma tcp_idle_end:
  assumes "protocol options = Tcp" and "given (jwtSecret options)" and "300000 \<le> ms"
  shows "step rt options cfg (accept options) (Elapse env ms)
     = \<lparr>phase = Closed, authTimeout = None, idleTimeout = None, toClient = [], toStdin = []\<rparr>"
  using assms by (simp add: accept_def elapse_def)

text \<open>
  The WebSocket listener does what the specification asks: when ten seconds pass and no
  token has come, the session is closed and the error of code -32003 is sent.
\<close>

lemma ws_authentication_timeout:
  assumes "protocol options = Ws" and "given (jwtSecret options)" and "10000 \<le> ms"
    and "\<not> writeThrows env"
  shows "step rt options cfg (accept options) (Elapse env ms)
     = \<lparr>phase = Closed, authTimeout = None, idleTimeout = None,
        toClient = [JSON_stringify rt authenticationTimeout], toStdin = []\<rparr>"
  using assms by (simp add: accept_def elapse_def send_def and_then_def)

lemma timeout_answer_text: "JSON_stringify plain authenticationTimeout = timeout_answer"
  by code_simp

lemma ws_session_times_out:
  "step plain (secured Ws) cfg (accept (secured Ws)) (Elapse calm 10000)
     = \<lparr>phase = Closed, authTimeout = None, idleTimeout = None,
        toClient = [timeout_answer], toStdin = []\<rparr>"
proof -
  have "protocol (secured Ws) = Ws" and "given (jwtSecret (secured Ws))"
    and "\<not> writeThrows calm"
    by (simp_all add: secured_def calm_def)
  from ws_authentication_timeout [OF this(1,2) _ this(3), of 10000 plain cfg]
  show ?thesis by (simp add: timeout_answer_text)
qed

text \<open>
  Claim C4 fails on the code for the TCP listener.  A connection to a TCP server with a
  secret that sends nothing is still waiting for its token after ten seconds, and after
  299999 milliseconds, and nothing has been sent to it: the listener arms no
  authentication timeout.  What ends the session is the idle timeout of five minutes,
  which destroys the socket without sending the error of code -32003.
\<close>

theorem tcp_has_no_authentication_timeout:
  "step rt (secured Tcp) cfg (accept (secured Tcp)) (Elapse env 10000)
     = \<lparr>phase = AwaitingToken, authTimeout = None, idleTimeout = Some 290000,
        toClient = [], toStdin = []\<rparr>
   \<and> step rt (secured Tcp) cfg (accept (secured Tcp)) (Elapse env 299999)
     = \<lparr>phase = AwaitingToken, authTimeout = None, idleTimeout = Some 1,
        toClient = [], toStdin = []\<rparr>
   \<and> step rt (secured Tcp) cfg (accept (secured Tcp)) (Elapse env 300000)
     = \<lparr>phase = Closed, authTimeout = None, idleTimeout = None, toClient = [], toStdin = []\<rparr>"
proof -
  have tcp: "protocol (secured Tcp) = Tcp" and secret: "given (jwtSecret (secured Tcp))"
    by (simp_all add: secured_def)
  from tcp_waits [OF tcp secret, of 10000 rt cfg env]
    tcp_waits [OF tcp secret, of 299999 rt cfg env]
    tcp_idle_end [OF tcp secret, of 300000 rt cfg env]
  show ?thesis by simp
qed

end
